theory Spec2Isabelle
  imports Main "HOL-Library.AList"
begin

section \<open>The sentiment-classification notebook\<close>

text \<open>
  The repository is one notebook, \<^verbatim>\<open>exercises/2_recurrent_neural_networks.ipynb\<close>, and a
  README. The notebook's code cells load the IMDB reviews, build two dictionaries that
  decode token ids back to words, show a review, pad the reviews to a common length and
  import the classes of the model the learner is asked to build. This theory embeds
  those cells twice: as functions on the interpreter's state, with every exception a
  value and every call into the external library a parameter, and as the document the
  notebook is, a list of cells that hold their source lines.
\<close>

subsection \<open>Exceptions\<close>

datatype error =
    KeyError
  | IndexError
  | NameError
  | TypeError
  | ValueError
  | LibraryError string

text \<open>Sequencing of computations that may raise: the first exception ends the run.\<close>

definition bindE :: "error + 'a \<Rightarrow> ('a \<Rightarrow> error + 'b) \<Rightarrow> error + 'b" where
  "bindE m f = (case m of Inl e \<Rightarrow> Inl e | Inr x \<Rightarrow> f x)"

fun mapE :: "('a \<Rightarrow> error + 'b) \<Rightarrow> 'a list \<Rightarrow> error + 'b list" where
  "mapE f [] = Inr []"
| "mapE f (x # xs) =
     (case f x of
        Inl e \<Rightarrow> Inl e
      | Inr y \<Rightarrow> (case mapE f xs of Inl e \<Rightarrow> Inl e | Inr ys \<Rightarrow> Inr (y # ys)))"

subsection \<open>Python dictionaries\<close>

text \<open>
  A dictionary keeps its keys in insertion order, and the order decides which entry
  survives when a comprehension produces the same key twice. It is modelled as an
  association list with distinct keys: \<^verbatim>\<open>d[k] = v\<close> replaces the value of a key that is
  present, in place, and appends a key that is not; \<^verbatim>\<open>d[k]\<close> raises \<^verbatim>\<open>KeyError\<close>
  for a missing key; a comprehension \<^verbatim>\<open>{key(x): val(x) for x in xs}\<close> stores its
  entries into an empty dictionary, from left to right.
\<close>

type_synonym ('k, 'v) dict = "('k \<times> 'v) list"

definition setitem :: "'k \<Rightarrow> 'v \<Rightarrow> ('k, 'v) dict \<Rightarrow> ('k, 'v) dict" where
  "setitem k v d = AList.update k v d"

definition getitem :: "('k, 'v) dict \<Rightarrow> 'k \<Rightarrow> error + 'v" where
  "getitem d k = (case map_of d k of None \<Rightarrow> Inl KeyError | Some v \<Rightarrow> Inr v)"

definition items :: "('k, 'v) dict \<Rightarrow> ('k \<times> 'v) list" where
  "items d = d"

definition dict_comp :: "('a \<Rightarrow> 'k \<times> 'v) \<Rightarrow> 'a list \<Rightarrow> ('k, 'v) dict" where
  "dict_comp f xs = foldl (\<lambda>d x. setitem (fst (f x)) (snd (f x)) d) [] xs"

text \<open>What makes an association list a dictionary: no key occurs twice.\<close>

definition is_dict :: "('k, 'v) dict \<Rightarrow> bool" where
  "is_dict d = distinct (map fst d)"

subsection \<open>The external library\<close>

text \<open>
  The notebook calls three functions of the library that carry data:
  \<^verbatim>\<open>imdb.load_data(num_words=...)\<close>, which returns the training and test reviews with
  their labels, \<^verbatim>\<open>imdb.get_word_index()\<close>, which returns a dictionary from words to
  integers, and \<^verbatim>\<open>sequence.pad_sequences(x, maxlen=...)\<close>. None of their bodies is
  among the repository's files, so the cells take them as parameters. Each call
  returns a new object or raises; that it does not write into its arguments is part
  of this interface.
\<close>

record library =
  imdb_load_data :: "nat \<Rightarrow> error + (int list list \<times> int list) \<times> (int list list \<times> int list)"
  imdb_get_word_index :: "error + (string, int) dict"
  sequence_pad_sequences :: "int list list \<Rightarrow> nat \<Rightarrow> error + int list list"

text \<open>
  Modelled from the spec: \<^verbatim>\<open>sequence.pad_sequences\<close> is a function of the external
  library, so its body is not among the repository's files. The spec describes it as
  ``forcing variable-length token sequences to a fixed length'' and its result as
  ``fixed-length padded/truncated integer arrays''. The notebook passes only
  \<^verbatim>\<open>maxlen\<close>, so the library's defaults decide the rest: \<^verbatim>\<open>padding='pre'\<close>,
  \<^verbatim>\<open>truncating='pre'\<close> and the fill value \<^verbatim>\<open>0\<close>. The model follows the
  library's documented procedure: a result row starts as \<^verbatim>\<open>maxlen\<close> copies of the fill
  value; an empty sequence leaves it so; otherwise the sequence is cut to at most
  \<^verbatim>\<open>maxlen\<close> tokens on the truncating side and written over the row's end
  (\<^verbatim>\<open>'pre'\<close>) or start (\<^verbatim>\<open>'post'\<close>). Tokens are Python integers; the library stores
  them as 32-bit integers, which every token id of the dataset fits.
\<close>

datatype side = Pre | Post

text \<open>\<^verbatim>\<open>s[-n:]\<close> and \<^verbatim>\<open>s[:n]\<close>; Python reads \<^verbatim>\<open>s[-0:]\<close> as \<^verbatim>\<open>s[0:]\<close>.\<close>

definition slice_last :: "nat \<Rightarrow> 'a list \<Rightarrow> 'a list" where
  "slice_last n s = (if n = 0 then s else drop (length s - n) s)"

definition slice_first :: "nat \<Rightarrow> 'a list \<Rightarrow> 'a list" where
  "slice_first n s = take n s"

text \<open>
  \<^verbatim>\<open>x[idx, -len(trunc):] = trunc\<close> and \<^verbatim>\<open>x[idx, :len(trunc)] = trunc\<close>: an
  assignment to a slice of \<open>n\<close> places takes \<open>n\<close> values, or a single value that
  it repeats, and raises otherwise.
\<close>

definition broadcast_to :: "nat \<Rightarrow> 'a list \<Rightarrow> error + 'a list" where
  "broadcast_to n vs =
     (if length vs = n then Inr vs
      else if length vs = 1 then Inr (replicate n (hd vs))
      else Inl ValueError)"

definition assign_tail :: "'a list \<Rightarrow> 'a list \<Rightarrow> error + 'a list" where
  "assign_tail row trunc =
     (let n = length (slice_last (length trunc) row)
      in bindE (broadcast_to n trunc) (\<lambda>vs. Inr (take (length row - n) row @ vs)))"

definition assign_head :: "'a list \<Rightarrow> 'a list \<Rightarrow> error + 'a list" where
  "assign_head row trunc =
     (let n = length (slice_first (length trunc) row)
      in bindE (broadcast_to n trunc) (\<lambda>vs. Inr (vs @ drop n row)))"

definition pad_row :: "nat \<Rightarrow> side \<Rightarrow> side \<Rightarrow> int \<Rightarrow> int list \<Rightarrow> error + int list" where
  "pad_row maxlen padding truncating val s =
     (let row = replicate maxlen val in
      if s = [] then Inr row
      else
        let trunc = (case truncating of Pre \<Rightarrow> slice_last maxlen s | Post \<Rightarrow> slice_first maxlen s)
        in (case padding of Post \<Rightarrow> assign_head row trunc | Pre \<Rightarrow> assign_tail row trunc))"

definition pad_sequences ::
  "int list list \<Rightarrow> nat \<Rightarrow> side \<Rightarrow> side \<Rightarrow> int \<Rightarrow> error + int list list" where
  "pad_sequences sequences maxlen padding truncating val =
     mapE (pad_row maxlen padding truncating val) sequences"

subsection \<open>The interpreter's state\<close>

text \<open>
  The notebook's kernel keeps objects and the names bound to them. An object lives at
  an address of the heap; a name is bound to an address, so two names can share one
  object and an assignment to an item of a dictionary changes the object in place. A
  statement takes the state and returns the state it leaves, with its value or the
  exception it raised: what was done before an exception stays done, as in a notebook
  whose cell failed half way.
\<close>

datatype pyobj =
    Reviews "int list list"
  | Labels "int list"
  | WordDict "(string, int) dict"
  | IndexDict "(int, string) dict"

record kernel =
  heap :: "pyobj list"
  names :: "string \<rightharpoonup> nat"

definition fresh_kernel :: kernel where
  "fresh_kernel = \<lparr>heap = [], names = Map.empty\<rparr>"

type_synonym 'a stmt = "kernel \<Rightarrow> (error + 'a) \<times> kernel"

definition bindS :: "'a stmt \<Rightarrow> ('a \<Rightarrow> 'b stmt) \<Rightarrow> 'b stmt" where
  "bindS m f k = (case m k of (Inl e, k') \<Rightarrow> (Inl e, k') | (Inr x, k') \<Rightarrow> f x k')"

definition thenS :: "'a stmt \<Rightarrow> 'b stmt \<Rightarrow> 'b stmt" where
  "thenS m n = bindS m (\<lambda>_. n)"

text \<open>A call whose result or exception is \<open>r\<close>: it leaves the state as it is.\<close>

definition call :: "error + 'a \<Rightarrow> 'a stmt" where
  "call r k = (r, k)"

text \<open>\<^verbatim>\<open>x = <a new object>\<close>: the object gets the next free address, \<open>x\<close> is bound to it.\<close>

definition assign :: "string \<Rightarrow> pyobj \<Rightarrow> unit stmt" where
  "assign x ob k =
     (Inr (), k\<lparr>heap := heap k @ [ob], names := (names k)(x \<mapsto> length (heap k))\<rparr>)"

text \<open>Reading a name: its address and the object there; an unbound name raises.\<close>

definition read :: "string \<Rightarrow> (nat \<times> pyobj) stmt" where
  "read x k =
     (case names k x of
        None \<Rightarrow> (Inl NameError, k)
      | Some a \<Rightarrow> if a < length (heap k) then (Inr (a, heap k ! a), k) else (Inl NameError, k))"

definition as_reviews :: "pyobj \<Rightarrow> error + int list list" where
  "as_reviews ob = (case ob of Reviews x \<Rightarrow> Inr x | _ \<Rightarrow> Inl TypeError)"




text \<open>The object a name stands for, and the states in which every name has one.\<close>

definition value_of :: "kernel \<Rightarrow> string \<Rightarrow> pyobj option" where
  "value_of k x =
     (case names k x of
        None \<Rightarrow> None
      | Some a \<Rightarrow> if a < length (heap k) then Some (heap k ! a) else None)"


subsection \<open>The data cell\<close>

text \<open>
  \<^verbatim>\<open>NUM_WORDS = 20000\<close> and
  \<^verbatim>\<open>(x_train, y_train), (x_test, y_test) = imdb.load_data(num_words=NUM_WORDS)\<close>.
  The three \<^verbatim>\<open>print\<close> calls that follow write to the cell's output and are not
  part of the state.
\<close>

definition NUM_WORDS :: nat where
  "NUM_WORDS = 20000"

definition cell_load :: "library \<Rightarrow> unit stmt" where
  "cell_load lib =
     bindS (call (imdb_load_data lib NUM_WORDS)) (\<lambda>((xtr, ytr), (xte, yte)).
     thenS (assign ''x_train'' (Reviews xtr))
    (thenS (assign ''y_train'' (Labels ytr))
    (thenS (assign ''x_test'' (Reviews xte))
           (assign ''y_test'' (Labels yte)))))"

subsection \<open>The word-index cell\<close>

text \<open>
  \<^verbatim>\<open>INDEX_FROM = 3\<close>; \<^verbatim>\<open>word_index\<close> is what \<^verbatim>\<open>imdb.get_word_index()\<close>
  returned. \<open>word_to_index_comp\<close> is the comprehension
  \<^verbatim>\<open>{k: (v + INDEX_FROM) for k, v in word_index.items()}\<close>, \<open>add_special_words\<close> the
  three assignments to \<^verbatim>\<open>"<PAD>"\<close>, \<^verbatim>\<open>"<START>"\<close> and \<^verbatim>\<open>"<UNK>"\<close> that follow
  it, in the source's order, and \<open>invert\<close> the comprehension
  \<^verbatim>\<open>{v: k for k, v in word_to_index.items()}\<close>. \<open>word_to_index\<close> and
  \<open>index_to_word\<close> are the two dictionaries the cell ends with.
\<close>

definition INDEX_FROM :: int where
  "INDEX_FROM = 3"

definition PAD :: string where
  "PAD = ''<PAD>''"

definition START :: string where
  "START = ''<START>''"

definition UNK :: string where
  "UNK = ''<UNK>''"

definition word_to_index_comp :: "(string, int) dict \<Rightarrow> (string, int) dict" where
  "word_to_index_comp word_index = dict_comp (\<lambda>(k, v). (k, v + INDEX_FROM)) (items word_index)"

definition add_special_words :: "(string, int) dict \<Rightarrow> (string, int) dict" where
  "add_special_words d = setitem UNK 2 (setitem START 1 (setitem PAD 0 d))"

definition invert :: "('k, 'v) dict \<Rightarrow> ('v, 'k) dict" where
  "invert d = dict_comp (\<lambda>(k, v). (v, k)) (items d)"

definition word_to_index :: "(string, int) dict \<Rightarrow> (string, int) dict" where
  "word_to_index word_index = add_special_words (word_to_index_comp word_index)"

definition index_to_word :: "(string, int) dict \<Rightarrow> (int, string) dict" where
  "index_to_word word_index = invert (word_to_index word_index)"


subsection \<open>The cell that shows a review\<close>

text \<open>
  \<^verbatim>\<open>I_SHOW = 4\<close> and \<^verbatim>\<open>' '.join([index_to_word[w] for w in x_train[I_SHOW]])\<close>: the
  row is read with Python's indexing (a negative index counts from the end, an index
  out of range raises \<^verbatim>\<open>IndexError\<close>), every token is looked up, and the words are
  joined with single spaces. The reader is invited to change \<^verbatim>\<open>I_SHOW\<close>, so the
  cell takes it as an argument.
\<close>

definition I_SHOW :: int where
  "I_SHOW = 4"


fun join :: "string \<Rightarrow> string list \<Rightarrow> string" where
  "join sep [] = []"
| "join sep [w] = w"
| "join sep (w # ws) = w @ sep @ join sep ws"





subsection \<open>The preprocessing cell\<close>

text \<open>
  \<^verbatim>\<open>MAXLEN = 80\<close>, \<^verbatim>\<open>X_train = sequence.pad_sequences(x_train, maxlen=MAXLEN)\<close> and
  \<^verbatim>\<open>X_test = sequence.pad_sequences(x_test, maxlen=MAXLEN)\<close>; the two \<^verbatim>\<open>print\<close>
  calls write to the cell's output. \<open>pad_call\<close> is the call as the library runs it,
  with every argument but \<^verbatim>\<open>maxlen\<close> at its default.
\<close>

definition MAXLEN :: nat where
  "MAXLEN = 80"

definition pad_call :: "int list list \<Rightarrow> error + int list list" where
  "pad_call x = pad_sequences x MAXLEN Pre Pre 0"

definition cell_pad :: "library \<Rightarrow> unit stmt" where
  "cell_pad lib =
     bindS (read ''x_train'') (\<lambda>(a, ob). bindS (call (as_reviews ob)) (\<lambda>x.
     bindS (call (sequence_pad_sequences lib x MAXLEN)) (\<lambda>X.
     thenS (assign ''X_train'' (Reviews X))
    (bindS (read ''x_test'') (\<lambda>(a, ob). bindS (call (as_reviews ob)) (\<lambda>x.
     bindS (call (sequence_pad_sequences lib x MAXLEN)) (\<lambda>X.
     assign ''X_test'' (Reviews X))))))))"

subsection \<open>Running the cells in order\<close>


text \<open>
  Two libraries to run the cells on: a small one that answers every call, padding as
  the library does, and one whose every call raises.
\<close>

definition small_library :: library where
  "small_library =
     \<lparr>imdb_load_data = (\<lambda>n. Inr (([[1, 14, 22], [1, 4]], [1, 0]), ([[1, 5, 4]], [1]))),
      imdb_get_word_index = Inr [(''the'', 1), (''and'', 2)],
      sequence_pad_sequences = (\<lambda>x n. pad_sequences x n Pre Pre 0)\<rparr>"

text \<open>The states the small library leaves after the data cell and after the word-index cell.\<close>

definition loaded_kernel :: kernel where
  "loaded_kernel = snd (cell_load small_library fresh_kernel)"


definition failing_library :: library where
  "failing_library =
     \<lparr>imdb_load_data = (\<lambda>n. Inl (LibraryError ''no data'')),
      imdb_get_word_index = Inl (LibraryError ''no index''),
      sequence_pad_sequences = (\<lambda>x n. Inl ValueError)\<rparr>"

subsection \<open>The notebook as a document\<close>

text \<open>
  The notebook file is a list of cells. A code cell is kept with its source lines as
  they stand in the file (without the line ends); a markdown cell is kept by its
  heading lines, the lines that start with \<^verbatim>\<open>#\<close> after an optional quote mark
  \<^verbatim>\<open>> \<close>, and its prose is left out.
\<close>

datatype cell = Markdown "string list" | Code "string list"

definition notebook :: "cell list" where
  \<open>notebook =
    [Markdown [],
     Markdown [''# Recurrent Neural Networks for Sentiment Classification''],
     Markdown [],
     Code
       [''%load_ext autoreload '',
        ''%autoreload 2''],
     Code
       [''import keras'',
        ''import numpy as np'',
        ''import matplotlib.pyplot as plt'',
        ''import os'',
        ''import pandas as pd'',
        ''import seaborn as sns'',
        '''',
        ''import utils'',
        '''',
        ''%matplotlib inline''],
     Markdown [''## 1 Data''],
     Code
       [''from keras.datasets import imdb'',
        '''',
        ''NUM_WORDS = 20000'',
        '''',
        ''(x_train, y_train), (x_test, y_test) = imdb.load_data(num_words=NUM_WORDS)'',
        '''',
        ''print('Loading data...')'',
        ''print(len(x_train), 'train sequences')'',
        ''print(len(x_test), 'test sequences')''],
     Markdown [],
     Code [''x_train[:3]''],
     Markdown [],
     Code
       [''INDEX_FROM = 3   # First actual word.'',
        '''',
        ''word_index = imdb.get_word_index()'',
        ''word_to_index = {k: (v + INDEX_FROM) for k, v in word_index.items()}'',
        ''# Add special words.'',
        ''word_to_index["<PAD>"] = 0  # Padding'',
        ''word_to_index["<START>"] = 1  # Starting of sequence'',
        ''word_to_index["<UNK>"] = 2  # Unknown word'',
        '''',
        ''index_to_word = {v: k for k, v in word_to_index.items()}''],
     Markdown [],
     Code
       [''I_SHOW = 4'',
        '''',
        ''' '.join([index_to_word[w] for w in x_train[I_SHOW]])''],
     Markdown [],
     Markdown [''## 2 Preprocessing''],
     Markdown [],
     Code
       [''from keras.preprocessing import sequence'',
        '''',
        ''MAXLEN = 80'',
        '''',
        ''X_train = sequence.pad_sequences(x_train, maxlen=MAXLEN)'',
        ''X_test = sequence.pad_sequences(x_test, maxlen=MAXLEN)'',
        '''',
        ''print('Size of X_train', X_train.shape)'',
        ''print('Size of X_test', X_test.shape)''],
     Markdown [],
     Code
       [''lengths = [len(s) for s in x_train]'',
        '''',
        ''fig, ax = plt.subplots(figsize=(10, 6))'',
        ''sns.kdeplot(lengths, cumulative=True, label='x_train', ax=ax)'',
        ''ax.plot((80, 80), ax.get_ylim(), '--k')'',
        ''ax.set_xlabel('Sequence lengths [# words]')'',
        ''ax.set_ylabel('Cumulative fraction')'',
        ''ax.set_title('Occurence of sequence lengths in reviews')'',
        ''ax.legend(['x_train', 'Max length'])''],
     Markdown [],
     Code
       [''print('Size of X_train:', X_train.shape)'',
        '''',
        ''X_train[3, :]''],
     Markdown [''## 3 Theory''],
     Markdown [],
     Markdown [''### 3.1 Embedding layer''],
     Code [''utils.one_hot_encoding()''],
     Markdown [],
     Code [''utils.one_hot_document()''],
     Markdown [],
     Code [''utils.embedding_encoding()''],
     Markdown [],
     Code [''utils.embedding_document()''],
     Markdown [],
     Markdown [],
     Markdown [],
     Markdown [''### 3.2 Recurrent layer''],
     Markdown [''### 3.3 Dense layer''],
     Markdown [''## 4 Model''],
     Markdown [''> #### Exercise: LSTM for sentiment classification''],
     Code
       [''from keras.callbacks import EarlyStopping, ModelCheckpoint'',
        ''from keras.models import Sequential'',
        ''from keras.layers import Dense, Embedding, LSTM'',
        ''''],
     Markdown [],
     Markdown [''# 5 Going deeper''],
     Markdown [],
     Markdown [''> #### Exercise: Baseline''],
     Code [],
     Markdown [''> #### Exercise: Minimum Viable Network''],
     Code [],
     Markdown [''> #### Exercise: Visualizing Embeddings''],
     Code [],
     Markdown [''> #### Exercise: Transfer Learning''],
     Code []]\<close>

definition code_cells :: "cell list \<Rightarrow> string list list" where
  "code_cells cells = concat (map (\<lambda>c. case c of Code src \<Rightarrow> [src] | Markdown _ \<Rightarrow> []) cells)"


definition headings :: "cell list \<Rightarrow> string list" where
  "headings cells = concat (map (\<lambda>c. case c of Markdown hs \<Rightarrow> hs | Code _ \<Rightarrow> []) cells)"

text \<open>The cells from the markdown cell headed \<open>h\<close> on.\<close>

definition section_from :: "string \<Rightarrow> cell list \<Rightarrow> cell list" where
  "section_from h cells = dropWhile (\<lambda>c. c \<noteq> Markdown [h]) cells"

text \<open>The source of the code cell that comes right after the markdown cell headed \<open>h\<close>.\<close>

fun code_after :: "string \<Rightarrow> cell list \<Rightarrow> string list option" where
  "code_after h (Markdown hs # Code src # cs) =
     (if h \<in> set hs then Some src else code_after h cs)"
| "code_after h (c # cs) = code_after h cs"
| "code_after h [] = None"








section \<open>Properties\<close>

subsection \<open>Dictionaries\<close>

lemma map_of_setitem: "map_of (setitem k v d) = (map_of d)(k \<mapsto> v)"
  by (simp add: setitem_def update_conv')

lemma keys_setitem: "fst ` set (setitem k v d) = insert k (fst ` set d)"
  by (simp add: setitem_def dom_update)

lemma is_dict_setitem: "is_dict d \<Longrightarrow> is_dict (setitem k v d)"
  by (simp add: setitem_def is_dict_def distinct_update)

lemma in_dict_iff: "is_dict d \<Longrightarrow> (k, v) \<in> set d \<longleftrightarrow> map_of d k = Some v"
  by (auto simp: is_dict_def dest: map_of_SomeD)

lemma getitem_Inr_iff: "getitem d k = Inr v \<longleftrightarrow> map_of d k = Some v"
  by (simp add: getitem_def split: option.splits)

text \<open>A comprehension reads its entries from left to right, so a later entry wins.\<close>

lemma map_of_foldl_setitem:
  "map_of (foldl (\<lambda>d x. setitem (fst (f x)) (snd (f x)) d) d0 xs) =
     map_of d0 ++ map_of (rev (map f xs))"
  by (induction xs arbitrary: d0)
    (auto simp: setitem_def update_conv' fun_eq_iff map_add_def split: option.splits)

lemma map_of_dict_comp: "map_of (dict_comp f xs) = map_of (rev (map f xs))"
  by (simp add: dict_comp_def map_of_foldl_setitem)

lemma is_dict_foldl_setitem:
  "is_dict d0 \<Longrightarrow> is_dict (foldl (\<lambda>d x. setitem (fst (f x)) (snd (f x)) d) d0 xs)"
  by (induction xs arbitrary: d0) (auto simp: setitem_def is_dict_def distinct_update)

lemma is_dict_dict_comp: "is_dict (dict_comp f xs)"
  unfolding dict_comp_def by (rule is_dict_foldl_setitem) (simp add: is_dict_def)

subsection \<open>The two dictionaries of the word-index cell\<close>

lemma markers_distinct: "PAD \<noteq> START" "PAD \<noteq> UNK" "START \<noteq> UNK"
  by (simp_all add: PAD_def START_def UNK_def)

lemma map_of_word_to_index_comp:
  assumes "is_dict wi"
  shows "map_of (word_to_index_comp wi) w = map_option (\<lambda>v. v + 3) (map_of wi w)"
proof -
  let ?shifted = "rev (map (\<lambda>(k, v). (k, v + 3)) wi)"
  have d: "distinct (map fst ?shifted)"
    using assms by (simp add: is_dict_def rev_map[symmetric] comp_def case_prod_beta del: rev_map)
  have eq: "map_of (word_to_index_comp wi) w = map_of ?shifted w"
    by (simp add: word_to_index_comp_def map_of_dict_comp items_def INDEX_FROM_def)
  show ?thesis
  proof (cases "map_of wi w")
    case None
    then have "w \<notin> fst ` set wi"
      by (simp add: map_of_eq_None_iff)
    then have "map_of ?shifted w = None"
      by (force simp: map_of_eq_None_iff)
    with None eq show ?thesis by simp
  next
    case (Some v)
    then have "(w, v) \<in> set wi"
      by (rule map_of_SomeD)
    then have "(w, v + 3) \<in> set ?shifted"
      by force
    with d have "map_of ?shifted w = Some (v + 3)"
      by (rule map_of_is_SomeI)
    with Some eq show ?thesis by simp
  qed
qed

lemma keys_word_to_index_comp:
  assumes "is_dict wi"
  shows "fst ` set (word_to_index_comp wi) = fst ` set wi"
proof (rule set_eqI)
  fix w
  show "w \<in> fst ` set (word_to_index_comp wi) \<longleftrightarrow> w \<in> fst ` set wi"
    using map_of_word_to_index_comp [OF assms, of w]
    by (metis map_of_eq_None_iff option.map_disc_iff)
qed

lemma map_of_word_to_index:
  "map_of (word_to_index wi) =
     (map_of (word_to_index_comp wi))(PAD \<mapsto> 0, START \<mapsto> 1, UNK \<mapsto> 2)"
  by (simp add: word_to_index_def add_special_words_def map_of_setitem)

lemma is_dict_word_to_index: "is_dict (word_to_index wi)"
  by (simp add: word_to_index_def add_special_words_def word_to_index_comp_def
      is_dict_setitem is_dict_dict_comp)

lemma word_to_index_markers:
  "map_of (word_to_index wi) PAD = Some 0"
  "map_of (word_to_index wi) START = Some 1"
  "map_of (word_to_index wi) UNK = Some 2"
  using markers_distinct by (simp_all add: map_of_word_to_index)


text \<open>Every entry of \<open>index_to_word\<close> is an entry of \<open>word_to_index\<close>, turned round.\<close>

lemma map_of_index_to_word_Some:
  assumes "map_of (index_to_word wi) i = Some w"
  shows "map_of (word_to_index wi) w = Some i"
proof -
  from assms have "(i, w) \<in> set (rev (map (\<lambda>(k, v). (v, k)) (word_to_index wi)))"
    by (auto simp: index_to_word_def invert_def map_of_dict_comp items_def dest: map_of_SomeD)
  then have "(w, i) \<in> set (word_to_index wi)"
    by auto
  then show ?thesis
    by (simp add: in_dict_iff is_dict_word_to_index)
qed

text \<open>Every id of \<open>word_to_index\<close> is a key of \<open>index_to_word\<close>.\<close>

lemma index_to_word_has_key:
  assumes "map_of (word_to_index wi) w = Some i"
  shows "\<exists>w'. map_of (index_to_word wi) i = Some w'"
proof -
  from assms have "(w, i) \<in> set (word_to_index wi)"
    by (rule map_of_SomeD)
  then have "i \<in> fst ` set (rev (map (\<lambda>(k, v). (v, k)) (word_to_index wi)))"
    by force
  then have "map_of (rev (map (\<lambda>(k, v). (v, k)) (word_to_index wi))) i \<noteq> None"
    by (simp only: map_of_eq_None_iff not_not)
  then show ?thesis
    by (auto simp: index_to_word_def invert_def map_of_dict_comp items_def)
qed

text \<open>
  Distinct ids that stay clear of 0, 1 and 2 once shifted make \<open>word_to_index\<close>
  one-to-one.
\<close>

lemma word_to_index_inj:
  assumes "is_dict wi" "distinct (map snd wi)"
    and "\<forall>v \<in> snd ` set wi. v + INDEX_FROM \<notin> {0, 1, 2}"
    and "map_of (word_to_index wi) w = Some i" "map_of (word_to_index wi) w' = Some i"
  shows "w = w'"
proof -
  have inj: "inj_on snd (set wi)"
    using assms(2) by (simp add: distinct_map)
  have clear: "v + 3 \<noteq> 0 \<and> v + 3 \<noteq> 1 \<and> v + 3 \<noteq> 2" if "map_of wi u = Some v" for u v
  proof -
    from that have "(u, v) \<in> set wi"
      by (rule map_of_SomeD)
    then have "v \<in> snd ` set wi"
      by force
    with assms(3) show ?thesis
      by (auto simp: INDEX_FROM_def)
  qed
  have val: "(u = PAD \<and> j = 0) \<or> (u = START \<and> j = 1) \<or> (u = UNK \<and> j = 2)
      \<or> (u \<notin> {PAD, START, UNK} \<and> (\<exists>v. map_of wi u = Some v \<and> j = v + 3 \<and> j \<notin> {0, 1, 2}))"
    if "map_of (word_to_index wi) u = Some j" for u j
    using that assms(1) clear markers_distinct
    by (auto simp: map_of_word_to_index map_of_word_to_index_comp split: if_splits)
  from val [OF assms(4)] val [OF assms(5)] show ?thesis
  proof (elim disjE conjE exE)
    fix v v'
    assume "map_of wi w = Some v" "i = v + 3" "map_of wi w' = Some v'" "i = v' + 3"
    then have "(w, v) \<in> set wi" "(w', v) \<in> set wi"
      by (auto dest: map_of_SomeD)
    with inj_onD [OF inj, of "(w, v)" "(w', v)"] show "w = w'"
      by simp
  qed auto
qed

subsection \<open>Padding\<close>

lemma mapE_total:
  assumes "\<And>x. x \<in> set xs \<Longrightarrow> f x = Inr (g x)"
  shows "mapE f xs = Inr (map g xs)"
  using assms by (induction xs) simp_all


lemma pad_row_default:
  assumes "0 < n"
  shows "pad_row n Pre Pre v s = Inr (replicate (n - length s) v @ drop (length s - n) s)"
proof (cases "s = []")
  case True
  then show ?thesis by (simp add: pad_row_def)
next
  case False
  have len: "length (slice_last n s) = min n (length s)"
    using assms by (simp add: slice_last_def)
  have "length (slice_last (length (slice_last n s)) (replicate n v)) = min n (length s)"
    using assms False by (simp add: len) (simp add: slice_last_def)
  then have "assign_tail (replicate n v) (slice_last n s) =
      Inr (replicate (n - min n (length s)) v @ slice_last n s)"
    by (simp add: assign_tail_def broadcast_to_def bindE_def len)
  moreover have "n - min n (length s) = n - length s"
    by simp
  ultimately show ?thesis
    using assms False by (simp add: pad_row_def slice_last_def)
qed

lemma pad_call_rows:
  "pad_call x = Inr (map (\<lambda>s. replicate (80 - length s) 0 @ drop (length s - 80) s) x)"
  unfolding pad_call_def pad_sequences_def MAXLEN_def
  by (rule mapE_total) (simp add: pad_row_default)

subsection \<open>What the cells leave in the state\<close>

lemma cell_load_ok:
  assumes "imdb_load_data lib NUM_WORDS = Inr ((xtr, ytr), (xte, yte))"
  shows "cell_load lib k =
    (Inr (), k\<lparr>heap := heap k @ [Reviews xtr, Labels ytr, Reviews xte, Labels yte],
              names := (names k)(''x_train'' \<mapsto> length (heap k),
                ''y_train'' \<mapsto> Suc (length (heap k)),
                ''x_test'' \<mapsto> Suc (Suc (length (heap k))),
                ''y_test'' \<mapsto> Suc (Suc (Suc (length (heap k)))))\<rparr>)"
  using assms by (simp add: cell_load_def bindS_def thenS_def call_def assign_def)






lemma cell_pad_ok:
  assumes "value_of k ''x_train'' = Some (Reviews x)" "value_of k ''x_test'' = Some (Reviews y)"
    and "sequence_pad_sequences lib x MAXLEN = Inr X" "sequence_pad_sequences lib y MAXLEN = Inr Y"
  shows "cell_pad lib k =
    (Inr (), k\<lparr>heap := heap k @ [Reviews X, Reviews Y],
              names := (names k)(''X_train'' \<mapsto> length (heap k),
                ''X_test'' \<mapsto> Suc (length (heap k)))\<rparr>)"
proof -
  from assms(1) obtain a where a: "names k ''x_train'' = Some a" "a < length (heap k)"
    "heap k ! a = Reviews x"
    by (auto simp: value_of_def split: option.splits if_splits)
  from assms(2) obtain b where b: "names k ''x_test'' = Some b" "b < length (heap k)"
    "heap k ! b = Reviews y"
    by (auto simp: value_of_def split: option.splits if_splits)
  show ?thesis
    using a b assms(3,4)
    by (simp add: cell_pad_def bindS_def thenS_def call_def assign_def read_def
        as_reviews_def nth_append)
qed





text \<open>The states after the data cell and the word-index cell have run on the small library.\<close>

lemma loaded_kernel_eq:
  "loaded_kernel =
     \<lparr>heap = [Reviews [[1, 14, 22], [1, 4]], Labels [1, 0], Reviews [[1, 5, 4]], Labels [1]],
      names = Map.empty(''x_train'' \<mapsto> 0, ''y_train'' \<mapsto> 1, ''x_test'' \<mapsto> 2, ''y_test'' \<mapsto> 3)\<rparr>"
  by (simp add: loaded_kernel_def cell_load_def small_library_def fresh_kernel_def bindS_def
      thenS_def call_def assign_def eval_nat_numeral)



section \<open>The claims\<close>

text \<open>
  Claim C1. Whatever the lengths of the reviews, the padding call of the notebook
  returns (it raises nothing), it returns one row per review, and every row has
  exactly 80 tokens. So when the preprocessing cell runs with this padding on a
  state that holds the reviews, it ends without an exception and \<^verbatim>\<open>X_train\<close> and
  \<^verbatim>\<open>X_test\<close> stand for arrays whose rows all have 80 tokens.
\<close>

theorem C1_padded_rows_have_length_80:
  "(\<exists>X. pad_call x = Inr X \<and> length X = length x \<and> (\<forall>r \<in> set X. length r = 80))
   \<and> (value_of k ''x_train'' = Some (Reviews x) \<and> value_of k ''x_test'' = Some (Reviews y)
        \<and> sequence_pad_sequences lib = (\<lambda>x n. pad_sequences x n Pre Pre 0) \<longrightarrow>
       (\<exists>X Y. fst (cell_pad lib k) = Inr ()
          \<and> value_of (snd (cell_pad lib k)) ''X_train'' = Some (Reviews X)
          \<and> value_of (snd (cell_pad lib k)) ''X_test'' = Some (Reviews Y)
          \<and> length X = length x \<and> length Y = length y
          \<and> (\<forall>r \<in> set X. length r = 80) \<and> (\<forall>r \<in> set Y. length r = 80)))"
proof (intro conjI impI)
  show "\<exists>X. pad_call x = Inr X \<and> length X = length x \<and> (\<forall>r \<in> set X. length r = 80)"
    by (auto simp: pad_call_rows)
next
  let ?pad = "map (\<lambda>s. replicate (80 - length s) (0 :: int) @ drop (length s - 80) s)"
  assume a: "value_of k ''x_train'' = Some (Reviews x) \<and> value_of k ''x_test'' = Some (Reviews y)
    \<and> sequence_pad_sequences lib = (\<lambda>x n. pad_sequences x n Pre Pre 0)"
  then have "sequence_pad_sequences lib x MAXLEN = Inr (?pad x)"
    "sequence_pad_sequences lib y MAXLEN = Inr (?pad y)"
    using pad_call_rows by (simp_all add: pad_call_def)
  with a have "cell_pad lib k =
      (Inr (), k\<lparr>heap := heap k @ [Reviews (?pad x), Reviews (?pad y)],
        names := (names k)(''X_train'' \<mapsto> length (heap k),
          ''X_test'' \<mapsto> Suc (length (heap k)))\<rparr>)"
    by (intro cell_pad_ok) simp_all
  then have "fst (cell_pad lib k) = Inr ()
      \<and> value_of (snd (cell_pad lib k)) ''X_train'' = Some (Reviews (?pad x))
      \<and> value_of (snd (cell_pad lib k)) ''X_test'' = Some (Reviews (?pad y))"
    by (simp add: value_of_def nth_append)
  moreover have "length (?pad x) = length x" "length (?pad y) = length y"
    "\<forall>r \<in> set (?pad x). length r = 80" "\<forall>r \<in> set (?pad y). length r = 80"
    by auto
  ultimately show "\<exists>X Y. fst (cell_pad lib k) = Inr ()
      \<and> value_of (snd (cell_pad lib k)) ''X_train'' = Some (Reviews X)
      \<and> value_of (snd (cell_pad lib k)) ''X_test'' = Some (Reviews Y)
      \<and> length X = length x \<and> length Y = length y
      \<and> (\<forall>r \<in> set X. length r = 80) \<and> (\<forall>r \<in> set Y. length r = 80)"
    by blast
qed

theorem C1_padded_rows_witness:
  "(\<exists>X. pad_call [[], [1, 14, 22], replicate 100 7] = Inr X
      \<and> length X = length [[], [1, 14, 22], replicate 100 (7::int)]
      \<and> list_all (\<lambda>r. length r = 80) X)
   \<and> value_of loaded_kernel ''x_train'' = Some (Reviews [[1, 14, 22], [1, 4]])
   \<and> value_of loaded_kernel ''x_test'' = Some (Reviews [[1, 5, 4]])
   \<and> sequence_pad_sequences small_library = (\<lambda>x n. pad_sequences x n Pre Pre 0)
   \<and> (\<exists>X Y. fst (cell_pad small_library loaded_kernel) = Inr ()
          \<and> value_of (snd (cell_pad small_library loaded_kernel)) ''X_train'' = Some (Reviews X)
          \<and> value_of (snd (cell_pad small_library loaded_kernel)) ''X_test'' = Some (Reviews Y)
          \<and> length X = 2 \<and> length Y = 1
          \<and> list_all (\<lambda>r. length r = 80) X \<and> list_all (\<lambda>r. length r = 80) Y)"
proof -
  have vals: "value_of loaded_kernel ''x_train'' = Some (Reviews [[1, 14, 22], [1, 4]])"
    "value_of loaded_kernel ''x_test'' = Some (Reviews [[1, 5, 4]])"
    by (simp_all add: loaded_kernel_eq value_of_def)
  have lib: "sequence_pad_sequences small_library = (\<lambda>x n. pad_sequences x n Pre Pre 0)"
    by (simp add: small_library_def)
  show ?thesis
    using
      C1_padded_rows_have_length_80 [where x = "[[], [1, 14, 22], replicate 100 7]"
        and k = fresh_kernel and y = "[]" and lib = failing_library]
      C1_padded_rows_have_length_80 [where x = "[[1, 14, 22], [1, 4]]" and y = "[[1, 5, 4]]"
        and k = loaded_kernel and lib = small_library]
      vals lib
    by (simp add: list_all_iff numeral_2_eq_2)
qed

text \<open>
  Claim C2. The word-index cell shifts every id of the library's index by 3: the
  comprehension maps each word \<open>w\<close> of the index, with id \<open>v\<close>, to \<open>v + 3\<close>. The
  three assignments then give \<^verbatim>\<open><PAD>\<close> the id 0, \<^verbatim>\<open><START>\<close> the id 1 and
  \<^verbatim>\<open><UNK>\<close> the id 2; the keys of the result are the library's words and these
  three, and every other word keeps its shifted id. When every id of the library is
  at least 1, no shifted id is 0, 1 or 2.
\<close>

theorem C2_reserved_tokens:
  assumes "is_dict word_index"
  shows "(\<forall>(w, v) \<in> set word_index. getitem (word_to_index_comp word_index) w = Inr (v + 3))
    \<and> getitem (word_to_index word_index) PAD = Inr 0
    \<and> getitem (word_to_index word_index) START = Inr 1
    \<and> getitem (word_to_index word_index) UNK = Inr 2
    \<and> fst ` set (word_to_index word_index) = fst ` set word_index \<union> {PAD, START, UNK}
    \<and> (\<forall>w. w \<notin> {PAD, START, UNK} \<longrightarrow>
          getitem (word_to_index word_index) w = getitem (word_to_index_comp word_index) w)
    \<and> ((\<forall>v \<in> snd ` set word_index. 1 \<le> v) \<longrightarrow>
          (\<forall>(w, i) \<in> set (word_to_index_comp word_index). i \<notin> {0, 1, 2}))"
proof (intro conjI)
  show "\<forall>(w, v) \<in> set word_index. getitem (word_to_index_comp word_index) w = Inr (v + 3)"
    using assms by (auto simp: getitem_Inr_iff map_of_word_to_index_comp in_dict_iff)
  show "getitem (word_to_index word_index) PAD = Inr 0"
    "getitem (word_to_index word_index) START = Inr 1"
    "getitem (word_to_index word_index) UNK = Inr 2"
    by (simp_all add: getitem_Inr_iff word_to_index_markers)
  show "fst ` set (word_to_index word_index) = fst ` set word_index \<union> {PAD, START, UNK}"
    using assms
    by (auto simp: word_to_index_def add_special_words_def keys_setitem keys_word_to_index_comp)
  show "\<forall>w. w \<notin> {PAD, START, UNK} \<longrightarrow>
      getitem (word_to_index word_index) w = getitem (word_to_index_comp word_index) w"
    by (simp add: getitem_def map_of_word_to_index)
  show "(\<forall>v \<in> snd ` set word_index. 1 \<le> v) \<longrightarrow>
      (\<forall>(w, i) \<in> set (word_to_index_comp word_index). i \<notin> {0, 1, 2})"
  proof (intro impI ballI, clarify)
    fix w i
    assume ge: "\<forall>v \<in> snd ` set word_index. 1 \<le> v"
      and mem: "(w, i) \<in> set (word_to_index_comp word_index)"
      and i: "i \<in> {0, 1, 2}"
    have "is_dict (word_to_index_comp word_index)"
      by (simp add: word_to_index_comp_def is_dict_dict_comp)
    with mem have "map_of (word_to_index_comp word_index) w = Some i"
      by (simp add: in_dict_iff)
    then obtain v where v: "map_of word_index w = Some v" "i = v + 3"
      using assms by (auto simp: map_of_word_to_index_comp)
    then have "(w, v) \<in> set word_index"
      by (auto dest: map_of_SomeD)
    then have "1 \<le> v"
      using ge by force
    with v i show False
      by auto
  qed
qed

theorem C2_reserved_tokens_witness:
  "is_dict [(''the'', 1), (''and'', 2)]
   \<and> getitem (word_to_index_comp [(''the'', 1), (''and'', 2)]) ''the'' = Inr 4
   \<and> getitem (word_to_index_comp [(''the'', 1), (''and'', 2)]) ''and'' = Inr 5
   \<and> getitem (word_to_index [(''the'', 1), (''and'', 2)]) PAD = Inr 0
   \<and> getitem (word_to_index [(''the'', 1), (''and'', 2)]) START = Inr 1
   \<and> getitem (word_to_index [(''the'', 1), (''and'', 2)]) UNK = Inr 2
   \<and> getitem (word_to_index [(''the'', 1), (''and'', 2)]) ''the'' = Inr 4
   \<and> word_to_index [(''the'', 1), (''and'', 2)] =
        [(''the'', 4), (''and'', 5), (''<PAD>'', 0), (''<START>'', 1), (''<UNK>'', 2)]
   \<and> list_all (\<lambda>v. 1 \<le> v) (map snd [(''the'', 1 :: int), (''and'', 2)])
   \<and> list_all (\<lambda>(w, i). i \<notin> {0, 1, 2}) (word_to_index_comp [(''the'', 1), (''and'', 2)])"
  using C2_reserved_tokens [of "[(''the'', 1), (''and'', 2)]"]
  by (simp add: is_dict_def PAD_def START_def UNK_def word_to_index_def word_to_index_comp_def
      add_special_words_def dict_comp_def items_def setitem_def INDEX_FROM_def getitem_def)



text \<open>
  Claim C4. With the defaults of the padding call, a review of more than 80 tokens
  keeps its last 80 tokens, so what is dropped is its head; a review of fewer than 80
  tokens gets zeros in front of it.
\<close>

theorem C4_truncates_head_pads_front:
  assumes "i < length x"
  shows "\<exists>X. pad_call x = Inr X
    \<and> (80 < length (x ! i) \<longrightarrow>
          X ! i = drop (length (x ! i) - 80) (x ! i)
          \<and> x ! i = take (length (x ! i) - 80) (x ! i) @ X ! i)
    \<and> (length (x ! i) < 80 \<longrightarrow>
          X ! i = replicate (80 - length (x ! i)) 0 @ x ! i)"
  using assms by (simp add: pad_call_rows)

theorem C4_truncates_head_witness:
  "\<exists>X. pad_call [map int [1..<84], [5, 6]] = Inr X
     \<and> X ! 0 = map int [4..<84]
     \<and> map int [1..<84] = map int [1..<4] @ X ! 0
     \<and> X ! 1 = replicate 78 0 @ [5, 6]"
  using C4_truncates_head_pads_front [of 0 "[map int [1..<84], [5, 6]]"]
    C4_truncates_head_pads_front [of 1 "[map int [1..<84], [5, 6]]"]
  by (auto simp: drop_map take_map)




text \<open>
  Claim C6, as stated, fails when a shifted id of the library falls on a reserved id.
  The index below gives distinct ids to distinct words, yet \<open>word_to_index\<close> sends
  the word \<^verbatim>\<open>a\<close> to 0 and \<open>index_to_word\<close> sends 0 to \<^verbatim>\<open><PAD>\<close>.
\<close>

theorem C6_collision_breaks_round_trip:
  "is_dict [(''a'', - 3 :: int)] \<and> distinct (map snd [(''a'', - 3 :: int)])
   \<and> getitem (word_to_index [(''a'', - 3)]) ''a'' = Inr 0
   \<and> getitem (index_to_word [(''a'', - 3)]) 0 = Inr ''<PAD>''"
  by (simp add: is_dict_def index_to_word_def invert_def word_to_index_def
      add_special_words_def word_to_index_comp_def dict_comp_def items_def setitem_def
      INDEX_FROM_def getitem_def PAD_def START_def UNK_def)

text \<open>
  Claim C6, amended. When the library's index gives distinct ids to distinct words and
  no id plus 3 is 0, 1 or 2 (as when every id is at least 1), \<open>index_to_word\<close> is the
  inverse of \<open>word_to_index\<close>: looking up the id of a word gives the word back, and
  looking up the word of an id gives the id back, the three reserved tokens included.
\<close>

theorem C6_index_to_word_inverts:
  assumes "is_dict word_index" "distinct (map snd word_index)"
    and "\<forall>v \<in> snd ` set word_index. v + INDEX_FROM \<notin> {0, 1, 2}"
  shows "(\<forall>w i. getitem (word_to_index word_index) w = Inr i \<longrightarrow>
            getitem (index_to_word word_index) i = Inr w)
    \<and> (\<forall>i w. getitem (index_to_word word_index) i = Inr w \<longrightarrow>
            getitem (word_to_index word_index) w = Inr i)"
proof (intro conjI allI impI)
  fix w i
  assume "getitem (word_to_index word_index) w = Inr i"
  then have wi: "map_of (word_to_index word_index) w = Some i"
    by (simp add: getitem_Inr_iff)
  then obtain w' where w': "map_of (index_to_word word_index) i = Some w'"
    using index_to_word_has_key by blast
  then have "map_of (word_to_index word_index) w' = Some i"
    by (rule map_of_index_to_word_Some)
  with wi have "w = w'"
    using assms by (blast intro: word_to_index_inj)
  with w' show "getitem (index_to_word word_index) i = Inr w"
    by (simp add: getitem_Inr_iff)
next
  fix i w
  assume "getitem (index_to_word word_index) i = Inr w"
  then show "getitem (word_to_index word_index) w = Inr i"
    by (simp add: getitem_Inr_iff map_of_index_to_word_Some)
qed

theorem C6_index_to_word_inverts_witness:
  "is_dict [(''the'', 1), (''and'', 2)]
   \<and> distinct (map snd [(''the'', 1::int), (''and'', 2)])
   \<and> getitem (word_to_index [(''the'', 1), (''and'', 2)]) ''and'' = Inr 5
   \<and> getitem (index_to_word [(''the'', 1), (''and'', 2)]) 5 = Inr ''and''
   \<and> getitem (index_to_word [(''the'', 1), (''and'', 2)]) 0 = Inr PAD
   \<and> getitem (word_to_index [(''the'', 1), (''and'', 2)]) PAD = Inr 0"
  using C6_index_to_word_inverts [of "[(''the'', 1), (''and'', 2)]"]
  by (simp add: is_dict_def index_to_word_def invert_def word_to_index_def
      add_special_words_def word_to_index_comp_def dict_comp_def items_def setitem_def
      INDEX_FROM_def getitem_def PAD_def START_def UNK_def)



text \<open>
  Claim C8. From the heading ``5 Going deeper'' on, the notebook has the four
  exercises (baseline, minimum viable network, visualizing embeddings, transfer
  learning), and the code cell under each of them is empty: there are four code
  cells in that part, none with a line of source.
\<close>

theorem C8_follow_up_exercises_empty:
  "headings (section_from ''# 5 Going deeper'' notebook) =
     [''# 5 Going deeper'',
      ''> #### Exercise: Baseline'',
      ''> #### Exercise: Minimum Viable Network'',
      ''> #### Exercise: Visualizing Embeddings'',
      ''> #### Exercise: Transfer Learning'']
   \<and> code_cells (section_from ''# 5 Going deeper'' notebook) = [[], [], [], []]
   \<and> code_after ''> #### Exercise: Baseline'' notebook = Some []
   \<and> code_after ''> #### Exercise: Minimum Viable Network'' notebook = Some []
   \<and> code_after ''> #### Exercise: Visualizing Embeddings'' notebook = Some []
   \<and> code_after ''> #### Exercise: Transfer Learning'' notebook = Some []"
  by (intro conjI; code_simp)




end
